theory Spec2Isabelle
  imports Complex_Main "HOL-Library.Word" "HOL-Library.Signed_Division" "HOL-Library.Monad_Syntax"
begin

section \<open>Data model\<close>

text \<open>
  The semantic pass (\<^verbatim>\<open>semantic.cc\<close>) and the constant folder (\<^verbatim>\<open>optimize.cc\<close>) work on
  the abstract syntax tree and the symbol table of the compiler. A \<^verbatim>\<open>sym_index\<close> is a
  handle into the symbol table; the three built-in handles \<^verbatim>\<open>void_type\<close>,
  \<^verbatim>\<open>integer_type\<close> and \<^verbatim>\<open>real_type\<close> are distinct from each other and from every
  user symbol.

  Source positions are left out: they only decorate diagnostics. A diagnostic is the
  text written to \<^verbatim>\<open>type_error()\<close>, without its end of line. A run that ends in
  \<^verbatim>\<open>fatal()\<close>, in a null dereference or in an arithmetic trap is the result \<open>None\<close>.
\<close>

datatype sym_index = void_type | integer_type | real_type | sym_ix nat

datatype sym_type =
  SYM_ARRAY | SYM_FUNC | SYM_PROC | SYM_VAR | SYM_PARAM | SYM_CONST | SYM_NAMETYPE | SYM_UNDEF

text \<open>\<^verbatim>\<open>long\<close> on the LP64 hosts the compiler is built for.\<close>

type_synonym long = "64 word"

text \<open>The formal parameters of a function or procedure: a list linked through
  \<^verbatim>\<open>preceding\<close>, held by its last element; \<open>param_NULL\<close> is the null pointer.\<close>

datatype parameter_symbol =
  param_NULL | parameter_symbol (preceding_param: parameter_symbol) (param_type: sym_index)

text \<open>The fields the two passes read from a symbol and its subclasses: the tag, the
  type (for a function, its return type), the last formal parameter of a function or
  procedure, and the two members of a constant's \<^verbatim>\<open>const_value\<close> union.\<close>

record 'd symbol =
  sym_tag :: sym_type
  sym_ty :: sym_index
  last_parameter :: parameter_symbol
  ival :: long
  rval :: 'd

record 'd symbol_table =
  get_symbol :: "sym_index \<Rightarrow> 'd symbol"
  current_environment :: sym_index

definition get_symbol_tag :: "'d symbol_table \<Rightarrow> sym_index \<Rightarrow> sym_type" where
  "get_symbol_tag sym_tab p = sym_tag (get_symbol sym_tab p)"

datatype ast_tag =
    AST_ID | AST_INDEXED | AST_ADD | AST_SUB | AST_OR | AST_AND | AST_MULT | AST_DIVIDE
  | AST_IDIV | AST_MOD | AST_EQUAL | AST_NOTEQUAL | AST_LESSTHAN | AST_GREATERTHAN
  | AST_UMINUS | AST_NOT | AST_CAST | AST_INTEGER | AST_REAL | AST_FUNCTIONCALL

text \<open>The concrete subclasses of \<^verbatim>\<open>ast_binaryoperation\<close> and of \<^verbatim>\<open>ast_binaryrelation\<close>.\<close>

datatype binop_class =
  ast_add | ast_sub | ast_or | ast_and | ast_mult | ast_divide | ast_idiv | ast_mod

datatype binrel_class = ast_equal | ast_notequal | ast_lessthan | ast_greaterthan

text \<open>An identifier node: its \<^verbatim>\<open>type\<close> field and its symbol \<^verbatim>\<open>sym_p\<close>.\<close>

datatype ast_id = ast_id (id_type: sym_index) (sym_p: sym_index)

text \<open>
  Expression nodes. Every node other than a literal stores its \<^verbatim>\<open>type\<close> field as the
  first \<open>sym_index\<close> argument; the parser leaves there what the node's constructor put.
  The type \<open>'d\<close> stands for \<^verbatim>\<open>double\<close>. A nullable pointer to an expression list is
  \<open>expr_list_NULL\<close> or a list node with its \<^verbatim>\<open>preceding\<close> and \<^verbatim>\<open>last_expr\<close>.
\<close>

datatype 'd ast_expression =
    id_expr ast_id
  | ast_indexed sym_index ast_id "'d ast_expression"
  | ast_binaryoperation binop_class sym_index "'d ast_expression" "'d ast_expression"
  | ast_binaryrelation binrel_class sym_index "'d ast_expression" "'d ast_expression"
  | ast_uminus sym_index "'d ast_expression"
  | ast_not sym_index "'d ast_expression"
  | ast_cast sym_index "'d ast_expression"
  | ast_integer long
  | ast_real 'd
  | ast_functioncall sym_index ast_id "'d ast_expr_list"
and 'd ast_expr_list =
    expr_list_NULL
  | ast_expr_list "'d ast_expr_list" "'d ast_expression option"

datatype 'd ast_statement =
    ast_procedurecall ast_id "'d ast_expr_list"
  | ast_assign "'d ast_expression" "'d ast_expression"
  | ast_while "'d ast_expression" "'d ast_stmt_list"
  | ast_if "'d ast_expression" "'d ast_stmt_list" "'d ast_elsif_list" "'d ast_stmt_list"
  | ast_return "'d ast_expression option"
and 'd ast_stmt_list =
    stmt_list_NULL
  | ast_stmt_list "'d ast_stmt_list" "'d ast_statement option"
and 'd ast_elsif_list =
    elsif_list_NULL
  | ast_elsif_list "'d ast_elsif_list" "'d ast_elsif option"
and 'd ast_elsif =
    ast_elsif "'d ast_expression" "'d ast_stmt_list"

text \<open>The \<^verbatim>\<open>tag\<close> member of an expression node.\<close>

fun binop_tag :: "binop_class \<Rightarrow> ast_tag" where
  "binop_tag ast_add = AST_ADD"
| "binop_tag ast_sub = AST_SUB"
| "binop_tag ast_or = AST_OR"
| "binop_tag ast_and = AST_AND"
| "binop_tag ast_mult = AST_MULT"
| "binop_tag ast_divide = AST_DIVIDE"
| "binop_tag ast_idiv = AST_IDIV"
| "binop_tag ast_mod = AST_MOD"

fun binrel_tag :: "binrel_class \<Rightarrow> ast_tag" where
  "binrel_tag ast_equal = AST_EQUAL"
| "binrel_tag ast_notequal = AST_NOTEQUAL"
| "binrel_tag ast_lessthan = AST_LESSTHAN"
| "binrel_tag ast_greaterthan = AST_GREATERTHAN"

fun tag :: "'d ast_expression \<Rightarrow> ast_tag" where
  "tag (id_expr i) = AST_ID"
| "tag (ast_indexed t i ix) = AST_INDEXED"
| "tag (ast_binaryoperation c t l r) = binop_tag c"
| "tag (ast_binaryrelation c t l r) = binrel_tag c"
| "tag (ast_uminus t e) = AST_UMINUS"
| "tag (ast_not t e) = AST_NOT"
| "tag (ast_cast t e) = AST_CAST"
| "tag (ast_integer v) = AST_INTEGER"
| "tag (ast_real v) = AST_REAL"
| "tag (ast_functioncall t i ps) = AST_FUNCTIONCALL"

text \<open>
  Modelled from the spec: the constructors of the node classes are in \<^verbatim>\<open>ast.cc\<close>, which
  is not among the sources, so the value of the \<^verbatim>\<open>type\<close> member of a fresh node is taken
  from the specification. A literal "resolves to the corresponding built-in type" and
  a folded \<open>2 + 3\<close> is "typed integer": an integer literal carries \<open>integer_type\<close> and a
  real literal \<open>real_type\<close>, and neither pass ever writes the field of a literal. A node
  of any other class is "unset until the Type Checker writes it": the field is stored
  in the node, and the trees of the examples below carry \<open>void_type\<close> there.
  \<open>etype\<close> reads the \<^verbatim>\<open>type\<close> member of an expression node.
\<close>

fun etype :: "'d ast_expression \<Rightarrow> sym_index" where
  "etype (id_expr i) = id_type i"
| "etype (ast_indexed t i ix) = t"
| "etype (ast_binaryoperation c t l r) = t"
| "etype (ast_binaryrelation c t l r) = t"
| "etype (ast_uminus t e) = t"
| "etype (ast_not t e) = t"
| "etype (ast_cast t e) = t"
| "etype (ast_integer v) = integer_type"
| "etype (ast_real v) = real_type"
| "etype (ast_functioncall t i ps) = t"

text \<open>
  Modelled from the spec: the constructor of \<^verbatim>\<open>ast_cast\<close> is not among the sources
  either. A cast node "carries resolved type real".
\<close>

definition new_ast_cast :: "'d ast_expression \<Rightarrow> 'd ast_expression" where
  "new_ast_cast e = ast_cast real_type e"

section \<open>The type checker (semantic.cc)\<close>

text \<open>The state the checker writes besides the tree: the diagnostics sink and the
  file-level flag \<^verbatim>\<open>has_return\<close>.\<close>

record tc_state =
  diagnostics :: "string list"
  has_return :: bool

definition type_error :: "string \<Rightarrow> tc_state \<Rightarrow> tc_state" where
  "type_error msg s = s\<lparr>diagnostics := diagnostics s @ [msg]\<rparr>"

declare Option.bind_cong [fundef_cong]

text \<open>\<^verbatim>\<open>semantic::chk_param\<close>. The expression list is changed in place, so the model
  returns it beside the boolean. \<^verbatim>\<open>actuals->last_expr->type\<close> reads the field of the
  node; a null \<^verbatim>\<open>last_expr\<close> is a null dereference.\<close>

fun chk_param ::
  "ast_id \<Rightarrow> parameter_symbol \<Rightarrow> 'd ast_expr_list \<Rightarrow> (bool \<times> 'd ast_expr_list) option"
where
  "chk_param env param_NULL expr_list_NULL = Some (True, expr_list_NULL)"
| "chk_param env (parameter_symbol fp ft) expr_list_NULL = Some (False, expr_list_NULL)"
| "chk_param env param_NULL (ast_expr_list p l) = Some (False, ast_expr_list p l)"
| "chk_param env (parameter_symbol fp ft) (ast_expr_list p l) =
     do {
       (ok, p') \<leftarrow> chk_param env fp p;
       if \<not> ok then Some (False, ast_expr_list p' l)
       else case l of
         None \<Rightarrow> None
       | Some e \<Rightarrow>
           if etype e \<noteq> ft then
             if ft = real_type then Some (True, ast_expr_list p' (Some (new_ast_cast e)))
             else Some (False, ast_expr_list p' l)
           else Some (True, ast_expr_list p' l)
     }"

text \<open>\<^verbatim>\<open>ast_id::type_check\<close>.\<close>

fun type_check_id :: "'d symbol_table \<Rightarrow> ast_id \<Rightarrow> sym_index" where
  "type_check_id sym_tab (ast_id t p) =
     (if sym_tag (get_symbol sym_tab p) \<noteq> SYM_NAMETYPE then t else p)"

text \<open>
  The virtual method \<^verbatim>\<open>type_check\<close> on expression nodes, with the helpers of class
  \<^verbatim>\<open>semantic\<close> that call back into it. Each returns the type it computed, the node as
  it left it, and the state. The helpers \<open>check_binop1\<close>, \<open>check_binop2\<close> and
  \<open>check_binrel\<close> take the two children of their node and return them as they leave them.
  Where the source assigns \<^verbatim>\<open>->type = real_type\<close> to a cast it has just made, the model
  builds the cast with that field. \<^verbatim>\<open>ast_cast\<close> has no \<^verbatim>\<open>type_check\<close> of its own: the
  call lands in \<^verbatim>\<open>ast_expression::type_check\<close>, which is fatal.
\<close>

function (sequential) type_check ::
    "'d symbol_table \<Rightarrow> 'd ast_expression \<Rightarrow> tc_state \<Rightarrow>
       (sym_index \<times> 'd ast_expression \<times> tc_state) option"
  and type_check_expr_list ::
    "'d symbol_table \<Rightarrow> 'd ast_expr_list \<Rightarrow> tc_state \<Rightarrow> ('d ast_expr_list \<times> tc_state) option"
  and check_binop1 ::
    "'d symbol_table \<Rightarrow> 'd ast_expression \<Rightarrow> 'd ast_expression \<Rightarrow> tc_state \<Rightarrow>
       (sym_index \<times> 'd ast_expression \<times> 'd ast_expression \<times> tc_state) option"
  and check_binop2 ::
    "'d symbol_table \<Rightarrow> 'd ast_expression \<Rightarrow> 'd ast_expression \<Rightarrow> string \<Rightarrow> tc_state \<Rightarrow>
       (sym_index \<times> 'd ast_expression \<times> 'd ast_expression \<times> tc_state) option"
  and check_binrel ::
    "'d symbol_table \<Rightarrow> 'd ast_expression \<Rightarrow> 'd ast_expression \<Rightarrow> tc_state \<Rightarrow>
       (sym_index \<times> 'd ast_expression \<times> 'd ast_expression \<times> tc_state) option"
  and check_parameters ::
    "'d symbol_table \<Rightarrow> ast_id \<Rightarrow> 'd ast_expr_list \<Rightarrow> tc_state \<Rightarrow>
       ('d ast_expr_list \<times> tc_state) option"
where
  "type_check sym_tab (id_expr i) s = Some (type_check_id sym_tab i, id_expr i, s)"
| "type_check sym_tab (ast_indexed t i ix) s =
     do {
       (it, ix', s1) \<leftarrow> type_check sym_tab ix s;
       let s2 = (if it \<noteq> integer_type
                 then type_error ''Index of an array must be an Integer'' s1 else s1);
       let ty = type_check_id sym_tab i;
       Some (ty, ast_indexed ty i ix', s2)
     }"
| "type_check sym_tab (ast_binaryoperation ast_add t l r) s =
     do {
       (ty, l', r', s') \<leftarrow> check_binop1 sym_tab l r s;
       Some (ty, ast_binaryoperation ast_add ty l' r', s')
     }"
| "type_check sym_tab (ast_binaryoperation ast_sub t l r) s =
     do {
       (ty, l', r', s') \<leftarrow> check_binop1 sym_tab l r s;
       Some (ty, ast_binaryoperation ast_sub ty l' r', s')
     }"
| "type_check sym_tab (ast_binaryoperation ast_mult t l r) s =
     do {
       (ty, l', r', s') \<leftarrow> check_binop1 sym_tab l r s;
       Some (ty, ast_binaryoperation ast_mult ty l' r', s')
     }"
| "type_check sym_tab (ast_binaryoperation ast_divide t l r) s =
     do {
       (left_type, l', s1) \<leftarrow> type_check sym_tab l s;
       (right_type, r', s2) \<leftarrow> type_check sym_tab r s1;
       let r'' = (if right_type = integer_type then ast_cast real_type r' else r');
       let l'' = (if left_type = integer_type then ast_cast real_type l' else l');
       Some (real_type, ast_binaryoperation ast_divide real_type l'' r'', s2)
     }"
| "type_check sym_tab (ast_binaryoperation ast_or t l r) s =
     do {
       (ty, l', r', s') \<leftarrow> check_binop2 sym_tab l r ''OR'' s;
       Some (ty, ast_binaryoperation ast_or t l' r', s')
     }"
| "type_check sym_tab (ast_binaryoperation ast_and t l r) s =
     do {
       (ty, l', r', s') \<leftarrow> check_binop2 sym_tab l r ''AND'' s;
       Some (ty, ast_binaryoperation ast_and ty l' r', s')
     }"
| "type_check sym_tab (ast_binaryoperation ast_idiv t l r) s =
     do {
       (ty, l', r', s') \<leftarrow> check_binop2 sym_tab l r ''DIV'' s;
       Some (ty, ast_binaryoperation ast_idiv ty l' r', s')
     }"
| "type_check sym_tab (ast_binaryoperation ast_mod t l r) s =
     do {
       (ty, l', r', s') \<leftarrow> check_binop2 sym_tab l r ''MOD'' s;
       Some (ty, ast_binaryoperation ast_mod ty l' r', s')
     }"
| "type_check sym_tab (ast_binaryrelation c t l r) s =
     do {
       (ty, l', r', s') \<leftarrow> check_binrel sym_tab l r s;
       Some (ty, ast_binaryrelation c ty l' r', s')
     }"
| "type_check sym_tab (ast_functioncall t i ps) s =
     do {
       (ps', s') \<leftarrow> check_parameters sym_tab i ps s;
       Some (t, ast_functioncall t i ps', s')
     }"
| "type_check sym_tab (ast_uminus t e) s =
     do {
       (ty, e', s') \<leftarrow> type_check sym_tab e s;
       Some (ty, ast_uminus t e', s')
     }"
| "type_check sym_tab (ast_not t e) s =
     do {
       (ty, e', s') \<leftarrow> type_check sym_tab e s;
       if ty \<noteq> integer_type
       then Some (void_type, ast_not t e', type_error ''Should be an integer'' s')
       else Some (integer_type, ast_not t e', s')
     }"
| "type_check sym_tab (ast_cast t e) s = None"
| "type_check sym_tab (ast_integer v) s = Some (integer_type, ast_integer v, s)"
| "type_check sym_tab (ast_real v) s = Some (real_type, ast_real v, s)"
| "type_check_expr_list sym_tab expr_list_NULL s = Some (expr_list_NULL, s)"
| "type_check_expr_list sym_tab (ast_expr_list p l) s =
     do {
       (p', s1) \<leftarrow> type_check_expr_list sym_tab p s;
       case l of
         None \<Rightarrow> Some (ast_expr_list p' None, s1)
       | Some e \<Rightarrow>
           do {
             (ty, e', s2) \<leftarrow> type_check sym_tab e s1;
             Some (ast_expr_list p' (Some e'), s2)
           }
     }"
| "check_binop1 sym_tab l r s =
     do {
       (left_type, l', s1) \<leftarrow> type_check sym_tab l s;
       (right_type, r', s2) \<leftarrow> type_check sym_tab r s1;
       if left_type \<noteq> right_type then
         let l'' = (if left_type \<noteq> real_type then new_ast_cast l' else l');
             r'' = (if right_type \<noteq> real_type then new_ast_cast r' else r')
         in Some (real_type, l'', r'', s2)
       else Some (left_type, l', r', s2)
     }"
| "check_binop2 sym_tab l r nm s =
     do {
       (left_type, l', s1) \<leftarrow> type_check sym_tab l s;
       (right_type, r', s2) \<leftarrow> type_check sym_tab r s1;
       let s3 = (if right_type \<noteq> integer_type
                 then type_error (''Rifht part:'' @ nm @ '' should be an integer'') s2 else s2);
       let s4 = (if left_type \<noteq> integer_type
                 then type_error (''Left part:'' @ nm @ '' should be an integer'') s3 else s3);
       Some (integer_type, l', r', s4)
     }"
| "check_binrel sym_tab l r s =
     do {
       (left_type, l', s1) \<leftarrow> type_check sym_tab l s;
       (right_type, r', s2) \<leftarrow> type_check sym_tab r s1;
       if left_type \<noteq> right_type then
         let l'' = (if left_type \<noteq> real_type then ast_cast real_type l' else l');
             r'' = (if right_type \<noteq> real_type then ast_cast real_type r' else r')
         in Some (integer_type, l'', r'', s2)
       else Some (integer_type, l', r', s2)
     }"
| "check_parameters sym_tab call_id param_list s =
     do {
       (ps, s') \<leftarrow> type_check_expr_list sym_tab param_list s;
       let sy = get_symbol sym_tab (sym_p call_id);
       formals_param \<leftarrow>
         (if sym_tag sy = SYM_FUNC then Some (last_parameter sy)
          else if sym_tag sy = SYM_PROC then Some (last_parameter sy)
          else None);
       (ok, ps') \<leftarrow> chk_param call_id formals_param ps;
       Some (ps', s')
     }"

  by pat_completeness auto

termination
  by (relation "measure (\<lambda>x. case x of
        Inl (Inl (sym_tab, e, s)) \<Rightarrow> 2 * size e
      | Inl (Inr (Inl (sym_tab, es, s))) \<Rightarrow> 2 * size es
      | Inl (Inr (Inr (sym_tab, l, r, s))) \<Rightarrow> 2 * (size l + size r) + 1
      | Inr (Inl (sym_tab, l, r, nm, s)) \<Rightarrow> 2 * (size l + size r) + 1
      | Inr (Inr (Inl (sym_tab, l, r, s))) \<Rightarrow> 2 * (size l + size r) + 1
      | Inr (Inr (Inr (sym_tab, i, ps, s))) \<Rightarrow> 2 * size ps + 1)") simp_all

text \<open>
  The virtual method \<^verbatim>\<open>type_check\<close> on statement nodes, statement lists, elsif lists
  and elsif nodes. The value these return is discarded by every caller, so the model
  returns the node as the method left it and the state. A null body, list or last
  element is not visited.
\<close>

fun type_check_stmt ::
    "'d symbol_table \<Rightarrow> 'd ast_statement \<Rightarrow> tc_state \<Rightarrow> ('d ast_statement \<times> tc_state) option"
  and type_check_stmt_list ::
    "'d symbol_table \<Rightarrow> 'd ast_stmt_list \<Rightarrow> tc_state \<Rightarrow> ('d ast_stmt_list \<times> tc_state) option"
  and type_check_elsif_list ::
    "'d symbol_table \<Rightarrow> 'd ast_elsif_list \<Rightarrow> tc_state \<Rightarrow> ('d ast_elsif_list \<times> tc_state) option"
  and type_check_elsif ::
    "'d symbol_table \<Rightarrow> 'd ast_elsif \<Rightarrow> tc_state \<Rightarrow> ('d ast_elsif \<times> tc_state) option"
where
  "type_check_stmt sym_tab (ast_procedurecall i ps) s =
     do {
       (ps', s') \<leftarrow> check_parameters sym_tab i ps s;
       Some (ast_procedurecall i ps', s')
     }"
| "type_check_stmt sym_tab (ast_assign lhs rhs) s =
     do {
       (left_type, lhs', s1) \<leftarrow> type_check sym_tab lhs s;
       (right_type, rhs', s2) \<leftarrow> type_check sym_tab rhs s1;
       let s3 = (if left_type = integer_type \<and> right_type = real_type
                 then type_error ''Variable of type integer can't be assigned a real value.'' s2
                 else s2);
       let rhs'' = (if left_type = real_type \<and> right_type = integer_type
                    then ast_cast real_type rhs' else rhs');
       Some (ast_assign lhs' rhs'', s3)
     }"
| "type_check_stmt sym_tab (ast_while c b) s =
     do {
       (ct, c', s1) \<leftarrow> type_check sym_tab c s;
       let s2 = (if ct \<noteq> integer_type
                 then type_error ''while predicate must be of integer type.'' s1 else s1);
       (b', s3) \<leftarrow> type_check_stmt_list sym_tab b s2;
       Some (ast_while c' b', s3)
     }"
| "type_check_stmt sym_tab (ast_if c b el eb) s =
     do {
       (ct, c', s1) \<leftarrow> type_check sym_tab c s;
       let s2 = (if ct \<noteq> integer_type
                 then type_error ''Your condition should be an integer.'' s1 else s1);
       (b', s3) \<leftarrow> type_check_stmt_list sym_tab b s2;
       (el', s4) \<leftarrow> type_check_elsif_list sym_tab el s3;
       (eb', s5) \<leftarrow> type_check_stmt_list sym_tab eb s4;
       Some (ast_if c' b' el' eb', s5)
     }"
| "type_check_stmt sym_tab (ast_return v) s =
     (let s1 = s\<lparr>has_return := True\<rparr>;
          tmp = get_symbol sym_tab (current_environment sym_tab)
      in case v of
           None \<Rightarrow>
             Some (ast_return None,
                   if sym_tag tmp \<noteq> SYM_PROC
                   then type_error ''Must return a value from a function.'' s1 else s1)
         | Some e \<Rightarrow>
             do {
               (value_type, e', s2) \<leftarrow> type_check sym_tab e s1;
               if sym_tag tmp \<noteq> SYM_FUNC
               then Some (ast_return (Some e'),
                          type_error ''Procedures may not return a value.'' s2)
               else Some (ast_return (Some e'),
                          if sym_ty tmp \<noteq> value_type
                          then type_error ''Bad return type from function.'' s2 else s2)
             })"
| "type_check_stmt_list sym_tab stmt_list_NULL s = Some (stmt_list_NULL, s)"
| "type_check_stmt_list sym_tab (ast_stmt_list p l) s =
     do {
       (p', s1) \<leftarrow> type_check_stmt_list sym_tab p s;
       case l of
         None \<Rightarrow> Some (ast_stmt_list p' None, s1)
       | Some x \<Rightarrow>
           do {
             (x', s2) \<leftarrow> type_check_stmt sym_tab x s1;
             Some (ast_stmt_list p' (Some x'), s2)
           }
     }"
| "type_check_elsif_list sym_tab elsif_list_NULL s = Some (elsif_list_NULL, s)"
| "type_check_elsif_list sym_tab (ast_elsif_list p l) s =
     do {
       (p', s1) \<leftarrow> type_check_elsif_list sym_tab p s;
       case l of
         None \<Rightarrow> Some (ast_elsif_list p' None, s1)
       | Some x \<Rightarrow>
           do {
             (x', s2) \<leftarrow> type_check_elsif sym_tab x s1;
             Some (ast_elsif_list p' (Some x'), s2)
           }
     }"
| "type_check_elsif sym_tab (ast_elsif c b) s =
     do {
       (ct, c', s1) \<leftarrow> type_check sym_tab c s;
       if ct \<noteq> integer_type
       then Some (ast_elsif c' b, type_error ''Should be an integer'' s1)
       else do {
         (b', s2) \<leftarrow> type_check_stmt_list sym_tab b s1;
         Some (ast_elsif c' b', s2)
       }
     }"

text \<open>\<^verbatim>\<open>semantic::do_typecheck\<close>: the flag is reset, the body is walked, and a function
  whose walk never set the flag is reported.\<close>

definition do_typecheck ::
  "'d symbol_table \<Rightarrow> 'd symbol \<Rightarrow> 'd ast_stmt_list \<Rightarrow> tc_state \<Rightarrow>
     ('d ast_stmt_list \<times> tc_state) option"
where
  "do_typecheck sym_tab env body s =
     do {
       (body', s1) \<leftarrow> type_check_stmt_list sym_tab body (s\<lparr>has_return := False\<rparr>);
       Some (body',
             if sym_tag env = SYM_FUNC \<and> \<not> has_return s1
             then type_error ''A function must return a value.'' s1 else s1)
     }"

section \<open>The constant folder (optimize.cc)\<close>

text \<open>
  The folder computes on \<^verbatim>\<open>double\<close> values with the host's floating-point unit. The
  embedding takes that arithmetic as a parameter: the four operations, the conversion of
  a \<^verbatim>\<open>double\<close> to \<^verbatim>\<open>bool\<close> that \<^verbatim>\<open>&&\<close> and \<^verbatim>\<open>||\<close> apply to their operands, and the
  conversion of their \<^verbatim>\<open>bool\<close> result to the \<^verbatim>\<open>double\<close> that \<^verbatim>\<open>ast_real\<close> stores.
\<close>

record 'd double_ops =
  d_add :: "'d \<Rightarrow> 'd \<Rightarrow> 'd"
  d_sub :: "'d \<Rightarrow> 'd \<Rightarrow> 'd"
  d_mult :: "'d \<Rightarrow> 'd \<Rightarrow> 'd"
  d_div :: "'d \<Rightarrow> 'd \<Rightarrow> 'd"
  d_nonzero :: "'d \<Rightarrow> bool"
  d_of_bool :: "bool \<Rightarrow> 'd"

text \<open>
  Arithmetic on \<^verbatim>\<open>long\<close> as the host performs it: \<^verbatim>\<open>+\<close>, \<^verbatim>\<open>-\<close> and \<^verbatim>\<open>*\<close> wrap around;
  \<^verbatim>\<open>/\<close> and \<^verbatim>\<open>%\<close> truncate towards zero, and trap when the divisor is zero or when
  the quotient is not representable, which happens for \<^verbatim>\<open>LONG_MIN\<close> and \<open>-1\<close> only.
\<close>

definition LONG_MIN :: long where
  "LONG_MIN = - (2 ^ 63)"

definition long_of_bool :: "bool \<Rightarrow> long" where
  "long_of_bool b = (if b then 1 else 0)"

definition long_div :: "long \<Rightarrow> long \<Rightarrow> long option" where
  "long_div a b =
     (if b = 0 \<or> (a = LONG_MIN \<and> b = - 1) then None
      else Some (word_of_int (sint a sdiv sint b)))"

definition long_mod :: "long \<Rightarrow> long \<Rightarrow> long option" where
  "long_mod a b =
     (if b = 0 \<or> (a = LONG_MIN \<and> b = - 1) then None
      else Some (word_of_int (sint a smod sint b)))"

text \<open>\<^verbatim>\<open>ast_optimizer::is_binop\<close>: a switch on the tag of the node.\<close>

fun is_binop_tag :: "ast_tag \<Rightarrow> bool" where
  "is_binop_tag AST_ADD = True"
| "is_binop_tag AST_SUB = True"
| "is_binop_tag AST_OR = True"
| "is_binop_tag AST_AND = True"
| "is_binop_tag AST_MULT = True"
| "is_binop_tag AST_DIVIDE = True"
| "is_binop_tag AST_IDIV = True"
| "is_binop_tag AST_MOD = True"
| "is_binop_tag _ = False"

definition is_binop :: "'d ast_expression \<Rightarrow> bool" where
  "is_binop node = is_binop_tag (tag node)"

text \<open>\<^verbatim>\<open>ast_optimizer::is_const\<close>.\<close>

fun is_const :: "'d symbol_table \<Rightarrow> 'd ast_expression \<Rightarrow> bool" where
  "is_const sym_tab (ast_integer v) = True"
| "is_const sym_tab (ast_real v) = True"
| "is_const sym_tab (id_expr i) = (get_symbol_tag sym_tab (sym_p i) = SYM_CONST)"
| "is_const sym_tab _ = False"

text \<open>
  The value of a constant operand: read from the constant's symbol when the operand is
  an identifier, from the literal otherwise. \<^verbatim>\<open>get_ast_integer()\<close> and
  \<^verbatim>\<open>get_ast_real()\<close> on a node of another class give a null pointer, whose use ends the
  run.
\<close>

fun integer_value :: "'d symbol_table \<Rightarrow> 'd ast_expression \<Rightarrow> long option" where
  "integer_value sym_tab (id_expr i) = Some (ival (get_symbol sym_tab (sym_p i)))"
| "integer_value sym_tab (ast_integer v) = Some v"
| "integer_value sym_tab _ = None"

fun real_value :: "'d symbol_table \<Rightarrow> 'd ast_expression \<Rightarrow> 'd option" where
  "real_value sym_tab (id_expr i) = Some (rval (get_symbol sym_tab (sym_p i)))"
| "real_value sym_tab (ast_real v) = Some v"
| "real_value sym_tab _ = None"

text \<open>
  The part of \<^verbatim>\<open>ast_optimizer::fold_constants\<close> that follows the folding of the two
  children: the test that both are constants, the integer branch, the real branch, and
  the cases that return the node as it stands.
\<close>

definition fold_evaluate ::
  "'d double_ops \<Rightarrow> 'd symbol_table \<Rightarrow> binop_class \<Rightarrow> sym_index \<Rightarrow>
     'd ast_expression \<Rightarrow> 'd ast_expression \<Rightarrow> 'd ast_expression option"
where
  "fold_evaluate fp sym_tab c t l r =
     (let node = ast_binaryoperation c t l r in
      if \<not> (is_const sym_tab l \<and> is_const sym_tab r) then Some node
      else if etype l = integer_type \<and> etype r = integer_type then
        do {
          left_value \<leftarrow> integer_value sym_tab l;
          right_value \<leftarrow> integer_value sym_tab r;
          case c of
            ast_add \<Rightarrow> Some (ast_integer (left_value + right_value))
          | ast_sub \<Rightarrow> Some (ast_integer (left_value - right_value))
          | ast_mult \<Rightarrow> Some (ast_integer (left_value * right_value))
          | ast_and \<Rightarrow> Some (ast_integer (long_of_bool (left_value \<noteq> 0 \<and> right_value \<noteq> 0)))
          | ast_or \<Rightarrow> Some (ast_integer (long_of_bool (left_value \<noteq> 0 \<or> right_value \<noteq> 0)))
          | ast_idiv \<Rightarrow> map_option ast_integer (long_div left_value right_value)
          | ast_mod \<Rightarrow> map_option ast_integer (long_mod left_value right_value)
          | ast_divide \<Rightarrow> Some node
        }
      else if etype l = real_type \<and> etype r = real_type then
        do {
          left_value \<leftarrow> real_value sym_tab l;
          right_value \<leftarrow> real_value sym_tab r;
          case c of
            ast_add \<Rightarrow> Some (ast_real (d_add fp left_value right_value))
          | ast_sub \<Rightarrow> Some (ast_real (d_sub fp left_value right_value))
          | ast_mult \<Rightarrow> Some (ast_real (d_mult fp left_value right_value))
          | ast_and \<Rightarrow>
              Some (ast_real (d_of_bool fp (d_nonzero fp left_value \<and> d_nonzero fp right_value)))
          | ast_or \<Rightarrow>
              Some (ast_real (d_of_bool fp (d_nonzero fp left_value \<or> d_nonzero fp right_value)))
          | ast_divide \<Rightarrow> Some (ast_real (d_div fp left_value right_value))
          | ast_idiv \<Rightarrow> Some node
          | ast_mod \<Rightarrow> Some node
        }
      else Some node)"

text \<open>
  \<^verbatim>\<open>ast_optimizer::fold_constants\<close>, the virtual method \<^verbatim>\<open>optimize\<close> on expression
  nodes, and \<^verbatim>\<open>ast_expr_list::optimize\<close>. \<open>fold_constants\<close> first calls \<open>optimize\<close> on the
  node, which folds the children of an operator, and then folds the children of a
  binary operation once more before it evaluates.
\<close>

function fold_constants ::
    "'d double_ops \<Rightarrow> 'd symbol_table \<Rightarrow> 'd ast_expression \<Rightarrow> 'd ast_expression option"
  and optimize ::
    "'d double_ops \<Rightarrow> 'd symbol_table \<Rightarrow> 'd ast_expression \<Rightarrow> 'd ast_expression option"
  and optimize_expr_list ::
    "'d double_ops \<Rightarrow> 'd symbol_table \<Rightarrow> 'd ast_expr_list \<Rightarrow> 'd ast_expr_list option"
where
  "fold_constants fp sym_tab node =
     do {
       node' \<leftarrow> optimize fp sym_tab node;
       if is_binop node' then
         case node' of
           ast_binaryoperation c t l r \<Rightarrow>
             do {
               l' \<leftarrow> fold_constants fp sym_tab l;
               r' \<leftarrow> fold_constants fp sym_tab r;
               fold_evaluate fp sym_tab c t l' r'
             }
         | _ \<Rightarrow> None
       else Some node'
     }"
| "optimize fp sym_tab (id_expr i) = Some (id_expr i)"
| "optimize fp sym_tab (ast_indexed t i ix) =
     do {
       ix' \<leftarrow> fold_constants fp sym_tab ix;
       Some (ast_indexed t i ix')
     }"
| "optimize fp sym_tab (ast_binaryoperation c t l r) =
     do {
       l' \<leftarrow> fold_constants fp sym_tab l;
       r' \<leftarrow> fold_constants fp sym_tab r;
       Some (ast_binaryoperation c t l' r')
     }"
| "optimize fp sym_tab (ast_binaryrelation c t l r) =
     do {
       l' \<leftarrow> fold_constants fp sym_tab l;
       r' \<leftarrow> fold_constants fp sym_tab r;
       Some (ast_binaryrelation c t l' r')
     }"
| "optimize fp sym_tab (ast_functioncall t i ps) =
     do {
       ps' \<leftarrow> optimize_expr_list fp sym_tab ps;
       Some (ast_functioncall t i ps')
     }"
| "optimize fp sym_tab (ast_uminus t e) =
     do {
       e' \<leftarrow> fold_constants fp sym_tab e;
       Some (ast_uminus t e')
     }"
| "optimize fp sym_tab (ast_not t e) =
     do {
       e' \<leftarrow> fold_constants fp sym_tab e;
       Some (ast_not t e')
     }"
| "optimize fp sym_tab (ast_integer v) = Some (ast_integer v)"
| "optimize fp sym_tab (ast_real v) = Some (ast_real v)"
| "optimize fp sym_tab (ast_cast t e) = Some (ast_cast t e)"
| "optimize_expr_list fp sym_tab expr_list_NULL = Some expr_list_NULL"
| "optimize_expr_list fp sym_tab (ast_expr_list p l) =
     do {
       p' \<leftarrow> optimize_expr_list fp sym_tab p;
       case l of
         None \<Rightarrow> Some (ast_expr_list p' None)
       | Some e \<Rightarrow>
           do {
             e' \<leftarrow> fold_constants fp sym_tab e;
             Some (ast_expr_list p' (Some e'))
           }
     }"
  by pat_completeness auto

termination
proof -
  have ev: "size e \<le> Suc (size l + size r)"
    if "fold_evaluate fp sym_tab c t l r = Some e"
    for fp :: "'d double_ops" and sym_tab c t l r e
    using that
    by (cases c) (auto simp: fold_evaluate_def Let_def split: if_splits Option.bind_splits)
  have sz:
    "fold_constants_optimize_optimize_expr_list_dom (Inl (fp, sym_tab, node)) \<Longrightarrow>
       (\<And>e. fold_constants fp sym_tab node = Some e \<Longrightarrow> size e \<le> size node)"
    "fold_constants_optimize_optimize_expr_list_dom (Inr (Inl (fp, sym_tab, node'))) \<Longrightarrow>
       (\<And>e. optimize fp sym_tab node' = Some e \<Longrightarrow> size e \<le> size node')"
    "fold_constants_optimize_optimize_expr_list_dom (Inr (Inr (fp, sym_tab, es))) \<Longrightarrow>
       (\<And>es'. optimize_expr_list fp sym_tab es = Some es' \<Longrightarrow> size es' \<le> size es)"
    for fp :: "'d double_ops" and sym_tab node node' es
  proof (induct rule: fold_constants_optimize_optimize_expr_list.pinduct)
    case (1 fp sym_tab node)
    from "1.prems" obtain n where n: "optimize fp sym_tab node = Some n"
      by (auto simp: fold_constants.psimps[OF "1.hyps"(1)] split: Option.bind_splits)
    have sn: "size n \<le> size node" using "1.hyps"(2) n by blast
    show ?case
    proof (cases "is_binop n")
      case False
      then show ?thesis using "1.prems" n sn
        by (simp add: fold_constants.psimps[OF "1.hyps"(1)])
    next
      case True
      show ?thesis
      proof (cases n)
        case (ast_binaryoperation c t l r)
        from "1.prems" n True ast_binaryoperation obtain l' r' where
          l': "fold_constants fp sym_tab l = Some l'" and
          r': "fold_constants fp sym_tab r = Some r'" and
          e: "fold_evaluate fp sym_tab c t l' r' = Some e"
          by (auto simp: fold_constants.psimps[OF "1.hyps"(1)] split: Option.bind_splits)
        have "size l' \<le> size l" using "1.hyps"(3)[OF n True ast_binaryoperation] l' by blast
        moreover have "size r' \<le> size r"
          using "1.hyps"(4)[OF n True ast_binaryoperation l'] r' by blast
        moreover have "size e \<le> Suc (size l' + size r')" using e by (rule ev)
        ultimately show ?thesis using sn ast_binaryoperation by simp
      qed (use "1.prems" n True in
            \<open>auto simp: fold_constants.psimps[OF "1.hyps"(1)] split: Option.bind_splits\<close>)
    qed
  qed (auto simp: optimize.psimps optimize_expr_list.psimps
         split: Option.bind_splits option.splits, (force)+)
  show ?thesis
  proof (relation "measure (\<lambda>x. case x of
          Inl (fp, sym_tab, node) \<Rightarrow> 2 * size node + 1
        | Inr (Inl (fp, sym_tab, node)) \<Rightarrow> 2 * size node
        | Inr (Inr (fp, sym_tab, es)) \<Rightarrow> 2 * size es)", goal_cases)
    case (3 fp sym_tab node n c t l r)
    then show ?case using sz(2)[of fp sym_tab node n] by simp
  next
    case (4 fp sym_tab node n c t l r l')
    then show ?case using sz(2)[of fp sym_tab node n] by simp
  qed simp_all
qed

declare fold_constants.simps [simp del]

text \<open>
  The virtual method \<^verbatim>\<open>optimize\<close> on statement nodes, statement lists, elsif lists and
  elsif nodes. An assignment folds its right-hand side only.
\<close>

fun optimize_stmt ::
    "'d double_ops \<Rightarrow> 'd symbol_table \<Rightarrow> 'd ast_statement \<Rightarrow> 'd ast_statement option"
  and optimize_stmt_list ::
    "'d double_ops \<Rightarrow> 'd symbol_table \<Rightarrow> 'd ast_stmt_list \<Rightarrow> 'd ast_stmt_list option"
  and optimize_elsif_list ::
    "'d double_ops \<Rightarrow> 'd symbol_table \<Rightarrow> 'd ast_elsif_list \<Rightarrow> 'd ast_elsif_list option"
  and optimize_elsif ::
    "'d double_ops \<Rightarrow> 'd symbol_table \<Rightarrow> 'd ast_elsif \<Rightarrow> 'd ast_elsif option"
where
  "optimize_stmt fp sym_tab (ast_procedurecall i ps) =
     do {
       ps' \<leftarrow> optimize_expr_list fp sym_tab ps;
       Some (ast_procedurecall i ps')
     }"
| "optimize_stmt fp sym_tab (ast_assign lhs rhs) =
     do {
       rhs' \<leftarrow> fold_constants fp sym_tab rhs;
       Some (ast_assign lhs rhs')
     }"
| "optimize_stmt fp sym_tab (ast_while c b) =
     do {
       c' \<leftarrow> fold_constants fp sym_tab c;
       b' \<leftarrow> optimize_stmt_list fp sym_tab b;
       Some (ast_while c' b')
     }"
| "optimize_stmt fp sym_tab (ast_if c b el eb) =
     do {
       c' \<leftarrow> fold_constants fp sym_tab c;
       b' \<leftarrow> optimize_stmt_list fp sym_tab b;
       el' \<leftarrow> optimize_elsif_list fp sym_tab el;
       eb' \<leftarrow> optimize_stmt_list fp sym_tab eb;
       Some (ast_if c' b' el' eb')
     }"
| "optimize_stmt fp sym_tab (ast_return v) =
     (case v of
        None \<Rightarrow> Some (ast_return None)
      | Some e \<Rightarrow>
          do {
            e' \<leftarrow> fold_constants fp sym_tab e;
            Some (ast_return (Some e'))
          })"
| "optimize_stmt_list fp sym_tab stmt_list_NULL = Some stmt_list_NULL"
| "optimize_stmt_list fp sym_tab (ast_stmt_list p l) =
     do {
       p' \<leftarrow> optimize_stmt_list fp sym_tab p;
       case l of
         None \<Rightarrow> Some (ast_stmt_list p' None)
       | Some x \<Rightarrow>
           do {
             x' \<leftarrow> optimize_stmt fp sym_tab x;
             Some (ast_stmt_list p' (Some x'))
           }
     }"
| "optimize_elsif_list fp sym_tab elsif_list_NULL = Some elsif_list_NULL"
| "optimize_elsif_list fp sym_tab (ast_elsif_list p l) =
     do {
       p' \<leftarrow> optimize_elsif_list fp sym_tab p;
       case l of
         None \<Rightarrow> Some (ast_elsif_list p' None)
       | Some x \<Rightarrow>
           do {
             x' \<leftarrow> optimize_elsif fp sym_tab x;
             Some (ast_elsif_list p' (Some x'))
           }
     }"
| "optimize_elsif fp sym_tab (ast_elsif c b) =
     do {
       c' \<leftarrow> fold_constants fp sym_tab c;
       b' \<leftarrow> optimize_stmt_list fp sym_tab b;
       Some (ast_elsif c' b')
     }"

text \<open>\<^verbatim>\<open>ast_optimizer::do_optimize\<close>.\<close>

definition do_optimize ::
  "'d double_ops \<Rightarrow> 'd symbol_table \<Rightarrow> 'd ast_stmt_list \<Rightarrow> 'd ast_stmt_list option"
where
  "do_optimize fp sym_tab body = optimize_stmt_list fp sym_tab body"

section \<open>Notions used to state the properties\<close>

text \<open>Truncating division as the specification names it: the exact quotient rounded
  towards zero, and the remainder that goes with it.\<close>

definition truncating_quotient :: "int \<Rightarrow> int \<Rightarrow> int" where
  "truncating_quotient a b =
     (let q = real_of_int a / real_of_int b in if 0 \<le> q then \<lfloor>q\<rfloor> else \<lceil>q\<rceil>)"

definition truncating_remainder :: "int \<Rightarrow> int \<Rightarrow> int" where
  "truncating_remainder a b = a - b * truncating_quotient a b"



section \<open>Concrete inputs\<close>

text \<open>
  The closed examples below run on \<open>real\<close> in the place of \<^verbatim>\<open>double\<close>, with exact
  arithmetic, zero as the only false value and \<open>1\<close> and \<open>0\<close> for the two booleans. They
  only use small dyadic values, on which the host's arithmetic is exact as well.
\<close>

definition exact_ops :: "real double_ops" where
  "exact_ops = \<lparr>d_add = (+), d_sub = (-), d_mult = (*), d_div = (/),
                d_nonzero = (\<lambda>x. x \<noteq> 0), d_of_bool = (\<lambda>b. if b then 1 else 0)\<rparr>"

text \<open>
  A symbol table with a function \<open>f(integer, real) : integer\<close> at index 0, which is the
  current environment, a constant \<open>N = 7\<close> at index 1, a procedure without parameters at
  index 3 and the integer variable \<open>x\<close> everywhere else.
\<close>

definition f_sym :: "real symbol" where
  "f_sym = \<lparr>sym_tag = SYM_FUNC, sym_ty = integer_type,
            last_parameter = parameter_symbol (parameter_symbol param_NULL integer_type) real_type,
            ival = 0, rval = 0\<rparr>"

definition N_sym :: "real symbol" where
  "N_sym = \<lparr>sym_tag = SYM_CONST, sym_ty = integer_type, last_parameter = param_NULL,
            ival = 7, rval = 0\<rparr>"

definition x_sym :: "real symbol" where
  "x_sym = \<lparr>sym_tag = SYM_VAR, sym_ty = integer_type, last_parameter = param_NULL,
            ival = 0, rval = 0\<rparr>"

definition p_sym :: "real symbol" where
  "p_sym = \<lparr>sym_tag = SYM_PROC, sym_ty = void_type, last_parameter = param_NULL,
            ival = 0, rval = 0\<rparr>"

definition example_tab :: "real symbol_table" where
  "example_tab =
     \<lparr>get_symbol = (\<lambda>p. if p = sym_ix 0 then f_sym else if p = sym_ix 1 then N_sym
                          else if p = sym_ix 3 then p_sym else x_sym),
      current_environment = sym_ix 0\<rparr>"

definition s0 :: tc_state where
  "s0 = \<lparr>diagnostics = [], has_return = False\<rparr>"





text \<open>The body \<open>x := 1 OR 0; x := - 1; x := NOT 1\<close>, as the parser builds it.\<close>

definition body_unwritten :: "real ast_stmt_list" where
  "body_unwritten =
     ast_stmt_list
       (ast_stmt_list
          (ast_stmt_list stmt_list_NULL
             (Some (ast_assign (id_expr (ast_id integer_type (sym_ix 2)))
                      (ast_binaryoperation ast_or void_type (ast_integer 1) (ast_integer 0)))))
          (Some (ast_assign (id_expr (ast_id integer_type (sym_ix 2)))
                   (ast_uminus void_type (ast_integer 1)))))
       (Some (ast_assign (id_expr (ast_id integer_type (sym_ix 2)))
                (ast_not void_type (ast_integer 1))))"

text \<open>The body \<open>if 1 then x := 1 elsif 1.5 then return 1 end\<close>.\<close>

definition body_elsif_return :: "real ast_stmt_list" where
  "body_elsif_return =
     ast_stmt_list stmt_list_NULL
       (Some (ast_if (ast_integer 1)
                (ast_stmt_list stmt_list_NULL
                   (Some (ast_assign (id_expr (ast_id integer_type (sym_ix 2))) (ast_integer 1))))
                (ast_elsif_list elsif_list_NULL
                   (Some (ast_elsif (ast_real (3/2))
                            (ast_stmt_list stmt_list_NULL
                               (Some (ast_return (Some (ast_integer 1))))))))
                stmt_list_NULL))"

text \<open>The body \<open>x := N * 2 + x\<close> after type checking, and what folding makes of it.\<close>

definition body_sum :: "real ast_stmt_list" where
  "body_sum =
     ast_stmt_list stmt_list_NULL
       (Some (ast_assign (id_expr (ast_id integer_type (sym_ix 2)))
                (ast_binaryoperation ast_add integer_type
                   (ast_binaryoperation ast_mult integer_type
                      (id_expr (ast_id integer_type (sym_ix 1))) (ast_integer 2))
                   (id_expr (ast_id integer_type (sym_ix 2))))))"

definition body_sum_folded :: "real ast_stmt_list" where
  "body_sum_folded =
     ast_stmt_list stmt_list_NULL
       (Some (ast_assign (id_expr (ast_id integer_type (sym_ix 2)))
                (ast_binaryoperation ast_add integer_type
                   (ast_integer 14)
                   (id_expr (ast_id integer_type (sym_ix 2))))))"

text \<open>The expression \<open>0 - 9223372036854775807 - 1\<close>, which folds to \<^verbatim>\<open>LONG_MIN\<close>, and
  \<open>0 - 1\<close>.\<close>

definition long_min_expr :: "real ast_expression" where
  "long_min_expr =
     ast_binaryoperation ast_sub integer_type
       (ast_binaryoperation ast_sub integer_type (ast_integer 0)
          (ast_integer 9223372036854775807))
       (ast_integer 1)"

definition minus_one_expr :: "real ast_expression" where
  "minus_one_expr = ast_binaryoperation ast_sub integer_type (ast_integer 0) (ast_integer 1)"

text \<open>The expressions \<open>0 - 7\<close> and \<open>1 + 1\<close>, which fold to \<open>-7\<close> and \<open>2\<close>.\<close>

definition minus_seven_expr :: "real ast_expression" where
  "minus_seven_expr = ast_binaryoperation ast_sub integer_type (ast_integer 0) (ast_integer 7)"

definition two_expr :: "real ast_expression" where
  "two_expr = ast_binaryoperation ast_add integer_type (ast_integer 1) (ast_integer 1)"

section \<open>Auxiliary facts\<close>

subsection \<open>The folder\<close>

lemma is_binop_iff: "is_binop n \<longleftrightarrow> (\<exists>c t l r. n = ast_binaryoperation c t l r)"
proof (cases n)
  case (ast_binaryoperation c t l r)
  then show ?thesis by (cases c) (simp_all add: is_binop_def)
next
  case (ast_binaryrelation c t l r)
  then show ?thesis by (cases c) (simp_all add: is_binop_def)
qed (simp_all add: is_binop_def)

lemma fold_constants_binop:
  "fold_constants fp sym_tab (ast_binaryoperation c t l r) =
     do {
       l1 \<leftarrow> fold_constants fp sym_tab l;
       r1 \<leftarrow> fold_constants fp sym_tab r;
       l2 \<leftarrow> fold_constants fp sym_tab l1;
       r2 \<leftarrow> fold_constants fp sym_tab r1;
       fold_evaluate fp sym_tab c t l2 r2
     }"
  by (subst fold_constants.simps) (simp add: is_binop_iff)

lemma fold_constants_other:
  assumes "\<not> is_binop node"
  shows "fold_constants fp sym_tab node = optimize fp sym_tab node"
proof -
  have "\<not> is_binop n" if "optimize fp sym_tab node = Some n" for n
    using that assms by (cases node) (auto simp: is_binop_iff split: Option.bind_splits)
  then show ?thesis
    by (subst fold_constants.simps) (auto split: Option.bind_splits)
qed

lemma fold_evaluate_cases:
  "fold_evaluate fp sym_tab c t l r = Some e \<Longrightarrow>
     e = ast_binaryoperation c t l r \<or> (\<exists>v. e = ast_integer v) \<or> (\<exists>v. e = ast_real v)"
  by (cases c) (auto simp: fold_evaluate_def Let_def split: if_splits Option.bind_splits)

lemma fold_constants_const:
  "is_const sym_tab e \<Longrightarrow> fold_constants fp sym_tab e = Some e"
  by (cases e) (simp_all add: fold_constants_other is_binop_iff)

lemma integer_const_value:
  "is_const sym_tab e \<Longrightarrow> etype e = integer_type \<Longrightarrow> \<exists>v. integer_value sym_tab e = Some v"
  by (cases e) simp_all

lemma optimize_tag_type:
  "optimize fp sym_tab node = Some e \<Longrightarrow> tag e = tag node \<and> etype e = etype node"
  by (cases node) (auto split: Option.bind_splits)

text \<open>A second application of the folder to its own result changes nothing. The
  three statements are proved together, along the recursion of the three functions.\<close>

lemma fold_idem:
  "\<And>e. fold_constants fp sym_tab node = Some e \<Longrightarrow> fold_constants fp sym_tab e = Some e"
  "\<And>e. optimize fp sym_tab node' = Some e \<Longrightarrow> optimize fp sym_tab e = Some e"
  "\<And>es'. optimize_expr_list fp sym_tab es = Some es' \<Longrightarrow>
      optimize_expr_list fp sym_tab es' = Some es'"
proof (induct fp sym_tab node and fp sym_tab node' and fp sym_tab es
        rule: fold_constants_optimize_optimize_expr_list.induct)
  case (1 fp sym_tab node)
  from "1.prems" obtain n where n: "optimize fp sym_tab node = Some n"
    by (subst (asm) fold_constants.simps) (auto split: Option.bind_splits)
  have nn: "optimize fp sym_tab n = Some n" using "1.hyps"(1) n by blast
  show ?case
  proof (cases "is_binop n")
    case False
    then have "e = n" using "1.prems" n
      by (subst (asm) fold_constants.simps) simp
    then show ?thesis using False nn by (simp add: fold_constants_other)
  next
    case True
    then obtain c t l r where nb: "n = ast_binaryoperation c t l r"
      by (auto simp: is_binop_iff)
    from "1.prems" n True nb obtain l' r' where
      l': "fold_constants fp sym_tab l = Some l'" and
      r': "fold_constants fp sym_tab r = Some r'" and
      ev: "fold_evaluate fp sym_tab c t l' r' = Some e"
      by (subst (asm) fold_constants.simps) (auto split: Option.bind_splits)
    have il: "fold_constants fp sym_tab l' = Some l'"
      using "1.hyps"(2)[OF n True nb] l' by blast
    have ir: "fold_constants fp sym_tab r' = Some r'"
      using "1.hyps"(3)[OF n True nb l'] r' by blast
    from fold_evaluate_cases[OF ev] show ?thesis
    proof (elim disjE exE)
      assume "e = ast_binaryoperation c t l' r'"
      then show ?thesis using il ir ev by (simp add: fold_constants_binop)
    next
      fix v assume "e = ast_integer v"
      then show ?thesis by (simp add: fold_constants_other is_binop_iff)
    next
      fix v assume "e = ast_real v"
      then show ?thesis by (simp add: fold_constants_other is_binop_iff)
    qed
  qed
next
  case (2 fp sym_tab i)
  then show ?case by auto
next
  case (3 fp sym_tab t i ix)
  from "3.prems" obtain ix' where a: "fold_constants fp sym_tab ix = Some ix'"
    and e: "e = ast_indexed t i ix'"
    by (auto split: Option.bind_splits)
  have "fold_constants fp sym_tab ix' = Some ix'" using "3.hyps" a by blast
  then show ?case by (simp add: e)
next
  case (4 fp sym_tab c t l r)
  from "4.prems" obtain l' r' where a: "fold_constants fp sym_tab l = Some l'"
    and b: "fold_constants fp sym_tab r = Some r'" and e: "e = ast_binaryoperation c t l' r'"
    by (auto split: Option.bind_splits)
  have "fold_constants fp sym_tab l' = Some l'" using "4.hyps"(1) a by blast
  moreover have "fold_constants fp sym_tab r' = Some r'" using "4.hyps"(2) a b by blast
  ultimately show ?case by (simp add: e)
next
  case (5 fp sym_tab c t l r)
  from "5.prems" obtain l' r' where a: "fold_constants fp sym_tab l = Some l'"
    and b: "fold_constants fp sym_tab r = Some r'" and e: "e = ast_binaryrelation c t l' r'"
    by (auto split: Option.bind_splits)
  have "fold_constants fp sym_tab l' = Some l'" using "5.hyps"(1) a by blast
  moreover have "fold_constants fp sym_tab r' = Some r'" using "5.hyps"(2) a b by blast
  ultimately show ?case by (simp add: e)
next
  case (6 fp sym_tab t i ps)
  from "6.prems" obtain ps' where a: "optimize_expr_list fp sym_tab ps = Some ps'"
    and e: "e = ast_functioncall t i ps'"
    by (auto split: Option.bind_splits)
  have "optimize_expr_list fp sym_tab ps' = Some ps'" using "6.hyps" a by blast
  then show ?case by (simp add: e)
next
  case (7 fp sym_tab t x)
  from "7.prems" obtain x' where a: "fold_constants fp sym_tab x = Some x'"
    and e: "e = ast_uminus t x'"
    by (auto split: Option.bind_splits)
  have "fold_constants fp sym_tab x' = Some x'" using "7.hyps" a by blast
  then show ?case by (simp add: e)
next
  case (8 fp sym_tab t x)
  from "8.prems" obtain x' where a: "fold_constants fp sym_tab x = Some x'"
    and e: "e = ast_not t x'"
    by (auto split: Option.bind_splits)
  have "fold_constants fp sym_tab x' = Some x'" using "8.hyps" a by blast
  then show ?case by (simp add: e)
next
  case (9 fp sym_tab v)
  then show ?case by auto
next
  case (10 fp sym_tab v)
  then show ?case by auto
next
  case (11 fp sym_tab t x)
  then show ?case by auto
next
  case (12 fp sym_tab)
  then show ?case by auto
next
  case (13 fp sym_tab p l)
  from "13.prems" obtain p' where a: "optimize_expr_list fp sym_tab p = Some p'"
    by (auto split: Option.bind_splits)
  have ip: "optimize_expr_list fp sym_tab p' = Some p'" using "13.hyps"(1) a by blast
  show ?case
  proof (cases l)
    case None
    then show ?thesis using "13.prems" a ip by auto
  next
    case (Some x)
    from "13.prems" a Some obtain x' where b: "fold_constants fp sym_tab x = Some x'"
      and e: "es' = ast_expr_list p' (Some x')"
      by (auto split: Option.bind_splits)
    have "fold_constants fp sym_tab x' = Some x'" using "13.hyps"(2)[OF a Some] b by blast
    then show ?thesis using ip by (simp add: e)
  qed
qed

lemma optimize_stmt_idem:
  "\<And>x'. optimize_stmt fp sym_tab x = Some x' \<Longrightarrow> optimize_stmt fp sym_tab x' = Some x'"
  "\<And>b'. optimize_stmt_list fp sym_tab b = Some b' \<Longrightarrow>
      optimize_stmt_list fp sym_tab b' = Some b'"
  "\<And>el'. optimize_elsif_list fp sym_tab el = Some el' \<Longrightarrow>
      optimize_elsif_list fp sym_tab el' = Some el'"
  "\<And>ei'. optimize_elsif fp sym_tab ei = Some ei' \<Longrightarrow> optimize_elsif fp sym_tab ei' = Some ei'"
proof (induct fp sym_tab x and fp sym_tab b and fp sym_tab el and fp sym_tab ei
        rule: optimize_stmt_optimize_stmt_list_optimize_elsif_list_optimize_elsif.induct)
  case (1 fp sym_tab i ps)
  from "1.prems" obtain ps' where a: "optimize_expr_list fp sym_tab ps = Some ps'"
    and e: "x' = ast_procedurecall i ps'"
    by (auto split: Option.bind_splits)
  show ?case using fold_idem(3)[OF a] by (simp add: e)
next
  case (2 fp sym_tab lhs rhs)
  from "2.prems" obtain rhs' where a: "fold_constants fp sym_tab rhs = Some rhs'"
    and e: "x' = ast_assign lhs rhs'"
    by (auto split: Option.bind_splits)
  show ?case using fold_idem(1)[OF a] by (simp add: e)
next
  case (3 fp sym_tab c b)
  from "3.prems" obtain c' b' where a: "fold_constants fp sym_tab c = Some c'"
    and b: "optimize_stmt_list fp sym_tab b = Some b'" and e: "x' = ast_while c' b'"
    by (auto split: Option.bind_splits)
  have "optimize_stmt_list fp sym_tab b' = Some b'" using "3.hyps"[OF a] b by blast
  then show ?case using fold_idem(1)[OF a] by (simp add: e)
next
  case (4 fp sym_tab c b el eb)
  from "4.prems" obtain c' b' el' eb' where a: "fold_constants fp sym_tab c = Some c'"
    and b: "optimize_stmt_list fp sym_tab b = Some b'"
    and c: "optimize_elsif_list fp sym_tab el = Some el'"
    and d: "optimize_stmt_list fp sym_tab eb = Some eb'"
    and e: "x' = ast_if c' b' el' eb'"
    by (auto split: Option.bind_splits)
  have "optimize_stmt_list fp sym_tab b' = Some b'" using "4.hyps"(1)[OF a] b by blast
  moreover have "optimize_elsif_list fp sym_tab el' = Some el'"
    using "4.hyps"(2)[OF a b] c by blast
  moreover have "optimize_stmt_list fp sym_tab eb' = Some eb'"
    using "4.hyps"(3)[OF a b c] d by blast
  ultimately show ?case using fold_idem(1)[OF a] by (simp add: e)
next
  case (5 fp sym_tab v)
  show ?case
  proof (cases v)
    case None
    then show ?thesis using "5.prems" by auto
  next
    case (Some y)
    from "5.prems" Some obtain y' where a: "fold_constants fp sym_tab y = Some y'"
      and e: "x' = ast_return (Some y')"
      by (auto split: Option.bind_splits)
    show ?thesis using fold_idem(1)[OF a] by (simp add: e)
  qed
next
  case (6 fp sym_tab)
  then show ?case by auto
next
  case (7 fp sym_tab p l)
  from "7.prems" obtain p' where a: "optimize_stmt_list fp sym_tab p = Some p'"
    by (auto split: Option.bind_splits)
  have ip: "optimize_stmt_list fp sym_tab p' = Some p'" using "7.hyps"(1) a by blast
  show ?case
  proof (cases l)
    case None
    then show ?thesis using "7.prems" a ip by auto
  next
    case (Some y)
    from "7.prems" a Some obtain y' where b: "optimize_stmt fp sym_tab y = Some y'"
      and e: "b' = ast_stmt_list p' (Some y')"
      by (auto split: Option.bind_splits)
    have "optimize_stmt fp sym_tab y' = Some y'" using "7.hyps"(2)[OF a Some] b by blast
    then show ?thesis using ip by (simp add: e)
  qed
next
  case (8 fp sym_tab)
  then show ?case by auto
next
  case (9 fp sym_tab p l)
  from "9.prems" obtain p' where a: "optimize_elsif_list fp sym_tab p = Some p'"
    by (auto split: Option.bind_splits)
  have ip: "optimize_elsif_list fp sym_tab p' = Some p'" using "9.hyps"(1) a by blast
  show ?case
  proof (cases l)
    case None
    then show ?thesis using "9.prems" a ip by auto
  next
    case (Some y)
    from "9.prems" a Some obtain y' where b: "optimize_elsif fp sym_tab y = Some y'"
      and e: "el' = ast_elsif_list p' (Some y')"
      by (auto split: Option.bind_splits)
    have "optimize_elsif fp sym_tab y' = Some y'" using "9.hyps"(2)[OF a Some] b by blast
    then show ?thesis using ip by (simp add: e)
  qed
next
  case (10 fp sym_tab c b)
  from "10.prems" obtain c' b' where a: "fold_constants fp sym_tab c = Some c'"
    and b: "optimize_stmt_list fp sym_tab b = Some b'" and e: "ei' = ast_elsif c' b'"
    by (auto split: Option.bind_splits)
  have "optimize_stmt_list fp sym_tab b' = Some b'" using "10.hyps"[OF a] b by blast
  then show ?case using fold_idem(1)[OF a] by (simp add: e)
qed

subsection \<open>Division on \<^verbatim>\<open>long\<close>\<close>

lemma sdiv_truncating_quotient:
  assumes "b \<noteq> 0"
  shows "a sdiv b = truncating_quotient a b"
proof -
  have fl: "\<lfloor>real_of_int x / real_of_int y\<rfloor> = x div y" for x y :: int
    by (simp add: floor_divide_of_int_eq)
  have ce: "\<lceil>real_of_int x / real_of_int y\<rceil> = - ((- x) div y)" for x y :: int
    using fl [of "- x" y] by (simp add: ceiling_def)
  consider (pp) "0 \<le> a" "0 < b" | (pn) "0 < a" "b < 0" | (np) "a < 0" "0 < b"
    | (nn) "a < 0" "b < 0" | (zn) "a = 0" "b < 0"
    using assms by linarith
  then show ?thesis
  proof cases
    case pp
    then have "0 \<le> real_of_int a / real_of_int b" by simp
    then show ?thesis using pp
      by (simp add: truncating_quotient_def fl signed_divide_int_def sgn_if)
  next
    case pn
    then have "real_of_int a / real_of_int b < 0" by (simp add: divide_pos_neg)
    then show ?thesis using pn
      by (simp add: truncating_quotient_def ce signed_divide_int_def sgn_if div_minus_right)
  next
    case np
    then have "real_of_int a / real_of_int b < 0" by (simp add: divide_neg_pos)
    then show ?thesis using np
      by (simp add: truncating_quotient_def ce signed_divide_int_def sgn_if)
  next
    case nn
    then have "0 \<le> real_of_int a / real_of_int b" by (simp add: divide_nonpos_neg)
    then show ?thesis using nn
      by (simp add: truncating_quotient_def fl signed_divide_int_def sgn_if)
  next
    case zn
    then show ?thesis by (simp add: truncating_quotient_def)
  qed
qed

lemma smod_truncating_remainder:
  assumes "b \<noteq> 0"
  shows "a smod b = truncating_remainder a b"
  using sdiv_mult_smod_eq [of a b] sdiv_truncating_quotient [OF assms, of a]
  by (simp add: truncating_remainder_def algebra_simps)

lemma abs_sdiv_le: "\<bar>x sdiv y\<bar> \<le> \<bar>x\<bar>" for x y :: int
proof -
  have nn: "0 \<le> \<bar>x\<bar> div \<bar>y\<bar>" using div_int_pos_iff by simp
  have "\<bar>x sdiv y\<bar> = \<bar>sgn x\<bar> * \<bar>sgn y\<bar> * (\<bar>x\<bar> div \<bar>y\<bar>)"
    using nn by (simp add: signed_divide_int_def abs_mult)
  also have "\<dots> \<le> \<bar>x\<bar> div \<bar>y\<bar>" using nn by (simp add: sgn_if)
  also have "\<dots> \<le> \<bar>x\<bar>" using int_div_le_self [of "\<bar>x\<bar>" "\<bar>y\<bar>"] by force
  finally show ?thesis .
qed

lemma abs_smod_less:
  fixes x y :: int
  assumes "y \<noteq> 0"
  shows "\<bar>x smod y\<bar> < \<bar>y\<bar>"
proof -
  from assms have "0 \<le> \<bar>x\<bar> mod \<bar>y\<bar>" "\<bar>x\<bar> mod \<bar>y\<bar> < \<bar>y\<bar>" by simp_all
  then show ?thesis using assms
    by (simp add: signed_modulo_int_def abs_mult sgn_if)
qed

lemma sint_LONG_MIN: "sint LONG_MIN = - (2 ^ 63)"
  by (simp add: LONG_MIN_def)

lemma sint_long_range: "- (2 ^ 63) \<le> sint (a :: long)" "sint (a :: long) < 2 ^ 63"
  using sint_ge [of a] sint_lt [of a] by simp_all

lemma long_eq_iff: "a = b \<longleftrightarrow> sint a = sint b" for a b :: long
  by (auto intro: signed_word_eqI)

lemma long_div_sint:
  assumes "long_div a b = Some q"
  shows "sint q = truncating_quotient (sint a) (sint b)"
proof -
  from assms have b0: "b \<noteq> 0" and ov: "\<not> (a = LONG_MIN \<and> b = - 1)"
    and q: "q = word_of_int (sint a sdiv sint b)"
    by (auto simp: long_div_def split: if_splits)
  let ?x = "sint a" and ?y = "sint b"
  have y0: "?y \<noteq> 0" using b0 by (simp add: signed_eq_0_iff)
  have le: "\<bar>?x sdiv ?y\<bar> \<le> \<bar>?x\<bar>" by (rule abs_sdiv_le)
  have lo: "- (2 ^ 63) \<le> ?x sdiv ?y" using le sint_long_range [of a] by linarith
  have hi: "?x sdiv ?y < 2 ^ 63"
  proof (rule ccontr)
    assume "\<not> ?x sdiv ?y < 2 ^ 63"
    then have big: "2 ^ 63 \<le> ?x sdiv ?y" by simp
    with le sint_long_range [of a] have x: "?x = - (2 ^ 63)" by linarith
    then have a: "a = LONG_MIN" by (simp add: long_eq_iff sint_LONG_MIN)
    have "\<bar>?y\<bar> = 1"
    proof (rule ccontr)
      assume "\<bar>?y\<bar> \<noteq> 1"
      with y0 have "2 \<le> \<bar>?y\<bar>" by linarith
      then have "\<bar>?x\<bar> div \<bar>?y\<bar> \<le> \<bar>?x\<bar> div 2"
        by (intro zdiv_mono2) simp_all
      moreover have "\<bar>?x sdiv ?y\<bar> \<le> \<bar>?x\<bar> div \<bar>?y\<bar>"
        using div_int_pos_iff [of "\<bar>?x\<bar>" "\<bar>?y\<bar>"]
        by (simp add: signed_divide_int_def abs_mult sgn_if)
      ultimately show False using big x by simp
    qed
    then consider "?y = 1" | "?y = - 1" by linarith
    then show False
    proof cases
      case 1
      then show ?thesis using big x by simp
    next
      case 2
      then have "b = - 1" by (simp add: long_eq_iff)
      then show ?thesis using ov a by simp
    qed
  qed
  have "sint q = ?x sdiv ?y"
    using lo hi by (simp add: q sint_sbintrunc' signed_take_bit_int_eq_self)
  then show ?thesis using sdiv_truncating_quotient [OF y0] by simp
qed

lemma long_mod_sint:
  assumes "long_mod a b = Some m"
  shows "sint m = truncating_remainder (sint a) (sint b)"
proof -
  from assms have b0: "b \<noteq> 0" and m: "m = word_of_int (sint a smod sint b)"
    by (auto simp: long_mod_def split: if_splits)
  let ?x = "sint a" and ?y = "sint b"
  have y0: "?y \<noteq> 0" using b0 by (simp add: signed_eq_0_iff)
  have "\<bar>?x smod ?y\<bar> < \<bar>?y\<bar>" using y0 by (rule abs_smod_less)
  then have "- (2 ^ 63) \<le> ?x smod ?y" "?x smod ?y < 2 ^ 63"
    using sint_long_range [of b] by linarith+
  then have "sint m = ?x smod ?y"
    by (simp add: m sint_sbintrunc' signed_take_bit_int_eq_self)
  then show ?thesis using smod_truncating_remainder [OF y0] by simp
qed

subsection \<open>Parameter lists\<close>


section \<open>Properties of the type checker and of the folder\<close>

subsection \<open>C1: the type field after the pass over a body\<close>

text \<open>
  C1. The claim: once the type checker's pass over a body is complete, every expression
  node of the body has its type field written, the OR, unary-minus and NOT nodes
  included. The code does not do this: \<^verbatim>\<open>ast_or::type_check\<close>, \<^verbatim>\<open>ast_uminus::type_check\<close>
  and \<^verbatim>\<open>ast_not::type_check\<close> return a type and assign nothing, where
  \<^verbatim>\<open>ast_and::type_check\<close> and the other operators assign \<^verbatim>\<open>type\<close>. The pass over
  \<open>x := 1 OR 0; x := - 1; x := NOT 1\<close> leaves the three nodes as the parser built them,
  although each of them resolves to \<open>integer\<close>.
\<close>

theorem or_uminus_not_leave_type_unwritten:
  "do_typecheck example_tab p_sym body_unwritten s0 = Some (body_unwritten, s0)
   \<and> type_check example_tab
        (ast_binaryoperation ast_or void_type (ast_integer 1) (ast_integer 0)) s0 =
      Some (integer_type, ast_binaryoperation ast_or void_type (ast_integer 1) (ast_integer 0), s0)
   \<and> type_check example_tab (ast_uminus void_type (ast_integer 1)) s0 =
      Some (integer_type, ast_uminus void_type (ast_integer 1), s0)
   \<and> type_check example_tab (ast_not void_type (ast_integer 1)) s0 =
      Some (integer_type, ast_not void_type (ast_integer 1), s0)"
  by (simp add: do_typecheck_def body_unwritten_def example_tab_def p_sym_def x_sym_def s0_def)

subsection \<open>C2: the type of a folded literal\<close>

text \<open>
  C2. The claim: a literal that replaces a node has the type the type checker gave that
  node, also where both children of an AND or OR node are real constants. The code does
  not do this: \<open>check_binop2\<close> types \<open>1.5 AND 2.5\<close> as \<open>integer\<close> (and reports both
  operands), and the real branch of \<open>fold_constants\<close> replaces the node by a real
  literal.
\<close>

theorem and_of_real_constants_folds_to_real:
  "type_check example_tab
     (ast_binaryoperation ast_and void_type (ast_real (3/2)) (ast_real (5/2))) s0 =
     Some (integer_type,
           ast_binaryoperation ast_and integer_type (ast_real (3/2)) (ast_real (5/2)),
           \<lparr>diagnostics = [''Rifht part:AND should be an integer'',
                            ''Left part:AND should be an integer''],
            has_return = False\<rparr>)
   \<and> fold_constants exact_ops example_tab
        (ast_binaryoperation ast_and integer_type (ast_real (3/2)) (ast_real (5/2))) =
       Some (ast_real 1)
   \<and> etype (ast_real 1 :: real ast_expression) = real_type"
  by (simp add: type_error_def s0_def fold_evaluate_def fold_constants_binop
        fold_constants_other is_binop_iff exact_ops_def)

subsection \<open>C3: division\<close>

text \<open>
  C3, as stated, fails: an operand of a division whose resolved type is not \<open>real\<close> is
  not always wrapped in a cast. \<open>NOT 1.5\<close> resolves to \<open>void_type\<close>, and the division
  \<open>(NOT 1.5) / 2.0\<close> keeps it as its left operand, unwrapped.
\<close>

theorem divide_leaves_void_operand_uncast:
  "type_check example_tab (ast_not void_type (ast_real (3/2))) s0 =
     Some (void_type, ast_not void_type (ast_real (3/2)), type_error ''Should be an integer'' s0)
   \<and> void_type \<noteq> real_type
   \<and> type_check example_tab
        (ast_binaryoperation ast_divide void_type (ast_not void_type (ast_real (3/2)))
           (ast_real 2)) s0 =
      Some (real_type,
            ast_binaryoperation ast_divide real_type (ast_not void_type (ast_real (3/2)))
              (ast_real 2),
            type_error ''Should be an integer'' s0)"
  by simp

text \<open>
  C3, amended: for every division node whose operands type-check, \<open>type_check\<close>
  resolves the node to \<open>real\<close> and writes that type, and it wraps in a cast exactly the
  operands whose resolved type is \<open>integer\<close> (both, when both are); an operand of any
  other resolved type stays as it is.
\<close>

theorem divide_casts_integer_operands:
  assumes "type_check sym_tab l s = Some (lt, l', s1)"
    and "type_check sym_tab r s1 = Some (rt, r', s2)"
  shows "type_check sym_tab (ast_binaryoperation ast_divide t l r) s =
           Some (real_type,
                 ast_binaryoperation ast_divide real_type
                   (if lt = integer_type then ast_cast real_type l' else l')
                   (if rt = integer_type then ast_cast real_type r' else r'),
                 s2)"
  using assms by simp

text \<open>Witness for C3: \<open>1 / 2\<close>, where both operands are cast.\<close>

theorem divide_casts_integer_operands_witness:
  "type_check example_tab
     (ast_binaryoperation ast_divide void_type (ast_integer 1) (ast_integer 2)) s0 =
   Some (real_type,
         ast_binaryoperation ast_divide real_type
           (ast_cast real_type (ast_integer 1)) (ast_cast real_type (ast_integer 2)), s0)"
proof -
  have l: "type_check example_tab (ast_integer 1) s0 = Some (integer_type, ast_integer 1, s0)"
    by simp
  have r: "type_check example_tab (ast_integer 2) s0 = Some (integer_type, ast_integer 2, s0)"
    by simp
  show ?thesis
    using divide_casts_integer_operands [OF l r, of void_type] by simp
qed

subsection \<open>C4: addition, subtraction, multiplication\<close>

text \<open>
  C4. For every addition, subtraction or multiplication node whose operands type-check:
  if the resolved types of the two operands differ, each operand that is not already
  \<open>real\<close> is wrapped in a cast and the node resolves to \<open>real\<close>; if they are the same,
  the node resolves to that type and the operands stay. The resolved type is both
  returned and written to the node.
\<close>

theorem check_binop1_casts:
  assumes "c = ast_add \<or> c = ast_sub \<or> c = ast_mult"
    and "type_check sym_tab l s = Some (lt, l', s1)"
    and "type_check sym_tab r s1 = Some (rt, r', s2)"
  shows "type_check sym_tab (ast_binaryoperation c t l r) s =
           Some (if lt \<noteq> rt then real_type else lt,
                 ast_binaryoperation c (if lt \<noteq> rt then real_type else lt)
                   (if lt \<noteq> rt \<and> lt \<noteq> real_type then new_ast_cast l' else l')
                   (if lt \<noteq> rt \<and> rt \<noteq> real_type then new_ast_cast r' else r'),
                 s2)"
  using assms by auto

text \<open>Witness for C4: \<open>2 + 3.0\<close> resolves to \<open>real\<close> and the integer side is cast.\<close>

theorem check_binop1_casts_witness:
  "type_check example_tab
     (ast_binaryoperation ast_add void_type (ast_integer 2) (ast_real 3)) s0 =
   Some (real_type,
         ast_binaryoperation ast_add real_type (new_ast_cast (ast_integer 2)) (ast_real 3), s0)"
proof -
  have l: "type_check example_tab (ast_integer 2) s0 = Some (integer_type, ast_integer 2, s0)"
    by simp
  have r: "type_check example_tab (ast_real 3) s0 = Some (real_type, ast_real 3, s0)"
    by simp
  show ?thesis
    using check_binop1_casts [of ast_add, OF _ l r, of void_type] by simp
qed

subsection \<open>C5: formal and actual parameters\<close>




subsection \<open>C6: a function without a return\<close>

text \<open>
  C6. The claim: type checking a function body reports "must return a value" exactly
  when no return statement occurs anywhere in the statement tree of the body. The code
  does not do this: \<^verbatim>\<open>ast_elsif::type_check\<close> returns right after reporting a condition
  that is not an integer and never visits the body of the elsif, where
  \<^verbatim>\<open>ast_if::type_check\<close> and \<^verbatim>\<open>ast_while::type_check\<close> go on. In the function body
  \<open>if 1 then x := 1 elsif 1.5 then return 1 end\<close> the return is not seen, the flag stays
  unset, and the function is reported as lacking a return.
\<close>

theorem return_in_elsif_not_seen:
  "do_typecheck example_tab f_sym body_elsif_return s0 =
     Some (body_elsif_return,
           \<lparr>diagnostics = [''Should be an integer'', ''A function must return a value.''],
            has_return = False\<rparr>)"
  by (simp add: do_typecheck_def body_elsif_return_def example_tab_def f_sym_def x_sym_def
        s0_def type_error_def)

subsection \<open>C7: folding DIV and MOD\<close>

text \<open>
  C7, as stated, fails: a nonzero divisor does not make the evaluation well defined. The
  children \<open>0 - 9223372036854775807 - 1\<close> and \<open>0 - 1\<close> fold to the integer constants
  \<^verbatim>\<open>LONG_MIN\<close> and \<open>-1\<close>; the quotient of the two is not a \<^verbatim>\<open>long\<close>, and the division
  and the remainder that \<open>fold_constants\<close> performs on them trap.
\<close>

theorem idiv_LONG_MIN_by_minus_one_traps:
  "fold_constants exact_ops example_tab long_min_expr = Some (ast_integer LONG_MIN)
   \<and> fold_constants exact_ops example_tab minus_one_expr = Some (ast_integer (- 1))
   \<and> (- 1 :: long) \<noteq> 0
   \<and> fold_constants exact_ops example_tab
        (ast_binaryoperation ast_idiv integer_type long_min_expr minus_one_expr) = None
   \<and> fold_constants exact_ops example_tab
        (ast_binaryoperation ast_mod integer_type long_min_expr minus_one_expr) = None"
  by (simp add: long_min_expr_def minus_one_expr_def fold_constants_binop fold_constants_other
        is_binop_iff fold_evaluate_def LONG_MIN_def long_div_def long_mod_def)

text \<open>
  C7, amended: for every DIV or MOD node whose two children fold to integer-typed
  constants with the values \<open>a\<close> and \<open>b\<close>: if \<open>b\<close> is not zero and the pair is not
  \<^verbatim>\<open>LONG_MIN\<close> and \<open>-1\<close>, \<open>fold_constants\<close> replaces the node by the integer literal of the
  truncating quotient (for MOD, of the remainder of the truncating division) of \<open>a\<close> and
  \<open>b\<close>; nothing guards the two other cases, in which the evaluation traps.
\<close>

theorem fold_idiv_mod_integer_constants:
  assumes "fold_constants fp sym_tab l = Some l'"
    and "is_const sym_tab l'" and "etype l' = integer_type"
    and "fold_constants fp sym_tab r = Some r'"
    and "is_const sym_tab r'" and "etype r' = integer_type"
  shows "\<exists>a b. integer_value sym_tab l' = Some a \<and> integer_value sym_tab r' = Some b \<and>
     (if b = 0 \<or> (a = LONG_MIN \<and> b = - 1)
      then fold_constants fp sym_tab (ast_binaryoperation ast_idiv t l r) = None
         \<and> fold_constants fp sym_tab (ast_binaryoperation ast_mod t l r) = None
      else \<exists>q m.
           fold_constants fp sym_tab (ast_binaryoperation ast_idiv t l r) = Some (ast_integer q)
         \<and> sint q = truncating_quotient (sint a) (sint b)
         \<and> fold_constants fp sym_tab (ast_binaryoperation ast_mod t l r) = Some (ast_integer m)
         \<and> sint m = truncating_remainder (sint a) (sint b))"
proof -
  from integer_const_value [OF assms(2,3)] obtain a
    where a: "integer_value sym_tab l' = Some a" ..
  from integer_const_value [OF assms(5,6)] obtain b
    where b: "integer_value sym_tab r' = Some b" ..
  have fl: "fold_constants fp sym_tab l' = Some l'"
    using assms(2) by (rule fold_constants_const)
  have fr: "fold_constants fp sym_tab r' = Some r'"
    using assms(5) by (rule fold_constants_const)
  have d: "fold_constants fp sym_tab (ast_binaryoperation ast_idiv t l r) =
             map_option ast_integer (long_div a b)"
    using assms a b by (simp add: fold_constants_binop fl fr fold_evaluate_def)
  have m: "fold_constants fp sym_tab (ast_binaryoperation ast_mod t l r) =
             map_option ast_integer (long_mod a b)"
    using assms a b by (simp add: fold_constants_binop fl fr fold_evaluate_def)
  show ?thesis
  proof (cases "b = 0 \<or> (a = LONG_MIN \<and> b = - 1)")
    case True
    then show ?thesis using a b d m by (simp add: long_div_def long_mod_def)
  next
    case False
    then obtain q k where q: "long_div a b = Some q" and k: "long_mod a b = Some k"
      by (simp add: long_div_def long_mod_def)
    show ?thesis
      using False a b d m q k long_div_sint [OF q] long_mod_sint [OF k] by simp
  qed
qed

text \<open>Witness for C7: the children of \<open>(0 - 7) DIV (1 + 1)\<close> fold to \<open>-7\<close> and \<open>2\<close>, and
  the node folds to \<open>-3\<close>; \<open>(0 - 7) MOD (1 + 1)\<close> folds to \<open>-1\<close>.\<close>

theorem fold_idiv_mod_integer_constants_witness:
  "fold_constants exact_ops example_tab minus_seven_expr = Some (ast_integer (- 7))
   \<and> is_const example_tab (ast_integer (- 7))
   \<and> etype (ast_integer (- 7) :: real ast_expression) = integer_type
   \<and> fold_constants exact_ops example_tab two_expr = Some (ast_integer 2)
   \<and> is_const example_tab (ast_integer 2)
   \<and> etype (ast_integer 2 :: real ast_expression) = integer_type
   \<and> fold_constants exact_ops example_tab
        (ast_binaryoperation ast_idiv integer_type minus_seven_expr two_expr) =
       Some (ast_integer (- 3))
   \<and> truncating_quotient (- 7) 2 = - 3
   \<and> fold_constants exact_ops example_tab
        (ast_binaryoperation ast_mod integer_type minus_seven_expr two_expr) =
       Some (ast_integer (- 1))
   \<and> truncating_remainder (- 7) 2 = - 1"
proof -
  have l: "fold_constants exact_ops example_tab minus_seven_expr = Some (ast_integer (- 7))"
    by (simp add: minus_seven_expr_def fold_constants_binop fold_constants_other is_binop_iff
          fold_evaluate_def)
  have r: "fold_constants exact_ops example_tab two_expr = Some (ast_integer 2)"
    by (simp add: two_expr_def fold_constants_binop fold_constants_other is_binop_iff
          fold_evaluate_def)
  have cl: "is_const example_tab (ast_integer (- 7))"
    and tl: "etype (ast_integer (- 7) :: real ast_expression) = integer_type"
    and cr: "is_const example_tab (ast_integer 2)"
    and tr: "etype (ast_integer 2 :: real ast_expression) = integer_type"
    by simp_all
  have tq: "truncating_quotient (- 7) 2 = - 3" and tm: "truncating_remainder (- 7) 2 = - 1"
    by (simp_all add: truncating_quotient_def truncating_remainder_def)
  have v: "(2 :: long) \<noteq> 0" "sint (- 7 :: long) = - 7" "sint (2 :: long) = 2"
    by simp_all
  from fold_idiv_mod_integer_constants [OF l cl tl r cr tr, of integer_type]
  obtain q m where
      "fold_constants exact_ops example_tab
         (ast_binaryoperation ast_idiv integer_type minus_seven_expr two_expr) =
       Some (ast_integer q)"
    and "sint q = - 3"
    and "fold_constants exact_ops example_tab
         (ast_binaryoperation ast_mod integer_type minus_seven_expr two_expr) =
       Some (ast_integer m)"
    and "sint m = - 1"
    using v tq tm by auto
  moreover have "q = - 3" using \<open>sint q = - 3\<close> by (simp add: long_eq_iff)
  moreover have "m = - 1" using \<open>sint m = - 1\<close> by (simp add: long_eq_iff)
  ultimately show ?thesis using l r tq tm by simp
qed

subsection \<open>C8: unary minus and NOT\<close>

text \<open>
  C8, as stated, fails: the result type of a NOT node is not always \<open>integer\<close>. For the
  real operand of \<open>NOT 1.5\<close> the error is reported and \<open>type_check\<close> returns
  \<open>void_type\<close>.
\<close>

theorem not_of_real_operand_is_void:
  "type_check example_tab (ast_not void_type (ast_real (3/2))) s0 =
     Some (void_type, ast_not void_type (ast_real (3/2)),
           \<lparr>diagnostics = [''Should be an integer''], has_return = False\<rparr>)"
  by (simp add: type_error_def s0_def)

text \<open>
  C8, amended: for every unary-minus node whose operand type-checks, \<open>type_check\<close>
  returns the resolved type of the operand and inserts no cast; for every NOT node whose
  operand type-checks, an operand that is not \<open>integer\<close> is reported as an error and the
  result type is then \<open>void_type\<close>, and the result type is \<open>integer\<close> when the operand is
  \<open>integer\<close>. Neither inserts a cast or writes its own type field.
\<close>

theorem uminus_not_result_type:
  assumes "type_check sym_tab e s = Some (ty, e', s')"
  shows "type_check sym_tab (ast_uminus t e) s = Some (ty, ast_uminus t e', s')
       \<and> type_check sym_tab (ast_not t e) s =
           (if ty = integer_type then Some (integer_type, ast_not t e', s')
            else Some (void_type, ast_not t e', type_error ''Should be an integer'' s'))"
  using assms by simp

text \<open>Witness for C8: \<open>- 2.0\<close> resolves to \<open>real\<close>, and \<open>NOT 2.0\<close> to \<open>void_type\<close>
  with one diagnostic.\<close>

theorem uminus_not_result_type_witness:
  "type_check example_tab (ast_uminus void_type (ast_real 2)) s0 =
     Some (real_type, ast_uminus void_type (ast_real 2), s0)
   \<and> type_check example_tab (ast_not void_type (ast_real 2)) s0 =
     Some (void_type, ast_not void_type (ast_real 2), type_error ''Should be an integer'' s0)"
proof -
  have e: "type_check example_tab (ast_real 2) s0 = Some (real_type, ast_real 2, s0)"
    by simp
  show ?thesis
    using uminus_not_result_type [OF e, of void_type] by simp
qed

subsection \<open>C9: folding twice\<close>

text \<open>
  C9. For every body on which the folding pass has run to completion, a second run of
  the pass on the result returns that result unchanged. The folder has no access to
  the diagnostics sink (\<open>do_optimize\<close> takes and returns the tree only), so neither run
  emits a diagnostic.
\<close>

theorem do_optimize_idempotent:
  "do_optimize fp sym_tab body = Some body' \<Longrightarrow> do_optimize fp sym_tab body' = Some body'"
  unfolding do_optimize_def by (rule optimize_stmt_idem(2))

text \<open>Witness for C9: \<open>x := N * 2 + x\<close> folds to \<open>x := 14 + x\<close>, which folds to
  itself.\<close>

theorem do_optimize_idempotent_witness:
  "do_optimize exact_ops example_tab body_sum = Some body_sum_folded
   \<and> do_optimize exact_ops example_tab body_sum_folded = Some body_sum_folded"
proof -
  have first: "do_optimize exact_ops example_tab body_sum = Some body_sum_folded"
    by (simp add: do_optimize_def body_sum_def body_sum_folded_def fold_constants_binop
          fold_constants_other is_binop_iff fold_evaluate_def get_symbol_tag_def
          example_tab_def N_sym_def x_sym_def)
  show ?thesis using first do_optimize_idempotent [OF first] by simp
qed

subsection \<open>C10: the nodes that folding replaces\<close>

text \<open>
  C10. \<open>fold_constants\<close> returns a relational node, a unary minus, a NOT, a call and an
  indexed access as the same node with its children folded, and a cast and an
  identifier as they are, whatever the children are; and whenever the node it returns
  has another tag than the node it was given, the given node carries one of the eight
  tags of the arithmetic and logical binary operations.
\<close>

theorem fold_constants_replaces_binops_only:
  "fold_constants fp sym_tab (ast_binaryrelation c t l r) =
     do {
       l' \<leftarrow> fold_constants fp sym_tab l;
       r' \<leftarrow> fold_constants fp sym_tab r;
       Some (ast_binaryrelation c t l' r')
     }
   \<and> fold_constants fp sym_tab (ast_uminus t e) =
       map_option (ast_uminus t) (fold_constants fp sym_tab e)
   \<and> fold_constants fp sym_tab (ast_not t e) =
       map_option (ast_not t) (fold_constants fp sym_tab e)
   \<and> fold_constants fp sym_tab (ast_cast t e) = Some (ast_cast t e)
   \<and> fold_constants fp sym_tab (ast_functioncall t i ps) =
       map_option (ast_functioncall t i) (optimize_expr_list fp sym_tab ps)
   \<and> fold_constants fp sym_tab (ast_indexed t i ix) =
       map_option (ast_indexed t i) (fold_constants fp sym_tab ix)
   \<and> fold_constants fp sym_tab (id_expr i) = Some (id_expr i)
   \<and> (\<forall>e'. fold_constants fp sym_tab node = Some e' \<and> tag e' \<noteq> tag node \<longrightarrow>
         tag node \<in> {AST_ADD, AST_SUB, AST_MULT, AST_DIVIDE, AST_AND, AST_OR, AST_IDIV, AST_MOD})"
proof -
  have "tag node \<in> {AST_ADD, AST_SUB, AST_MULT, AST_DIVIDE, AST_AND, AST_OR, AST_IDIV, AST_MOD}"
    if f: "fold_constants fp sym_tab node = Some e'" and t: "tag e' \<noteq> tag node" for e'
  proof (rule ccontr)
    assume n: "tag node \<notin>
      {AST_ADD, AST_SUB, AST_MULT, AST_DIVIDE, AST_AND, AST_OR, AST_IDIV, AST_MOD}"
    have "\<not> is_binop node"
    proof
      assume "is_binop node"
      then obtain c t l r where "node = ast_binaryoperation c t l r"
        by (auto simp: is_binop_iff)
      then show False using n by (cases c) simp_all
    qed
    then have "optimize fp sym_tab node = Some e'" using f by (simp add: fold_constants_other)
    then show False using t optimize_tag_type by blast
  qed
  then show ?thesis
    by (simp add: fold_constants_other is_binop_iff map_option_case split: option.splits
          Option.bind_splits)
qed

text \<open>Witness for C10: \<open>2 + 3\<close> is replaced by the literal \<open>5\<close>, and its tag is one of
  the eight; the relation \<open>2 = 3\<close> between two constants is returned as it is.\<close>

theorem fold_constants_replaces_binops_only_witness:
  "fold_constants exact_ops example_tab
     (ast_binaryoperation ast_add integer_type (ast_integer 2) (ast_integer 3)) =
     Some (ast_integer 5)
   \<and> tag (ast_integer 5 :: real ast_expression) \<noteq>
       tag (ast_binaryoperation ast_add integer_type (ast_integer 2)
              (ast_integer 3 :: real ast_expression))
   \<and> tag (ast_binaryoperation ast_add integer_type (ast_integer 2)
            (ast_integer 3 :: real ast_expression))
       \<in> {AST_ADD, AST_SUB, AST_MULT, AST_DIVIDE, AST_AND, AST_OR, AST_IDIV, AST_MOD}
   \<and> fold_constants exact_ops example_tab
        (ast_binaryrelation ast_equal integer_type (ast_integer 2) (ast_integer 3)) =
       Some (ast_binaryrelation ast_equal integer_type (ast_integer 2) (ast_integer 3))"
proof -
  have f: "fold_constants exact_ops example_tab
     (ast_binaryoperation ast_add integer_type (ast_integer 2) (ast_integer 3)) =
     Some (ast_integer 5)"
    by (simp add: fold_constants_binop fold_constants_other is_binop_iff fold_evaluate_def)
  show ?thesis
    using f fold_constants_replaces_binops_only
      [where fp = exact_ops and sym_tab = example_tab and c = ast_equal and t = integer_type
         and l = "ast_integer 2" and r = "ast_integer 3"
         and node = "ast_binaryoperation ast_add integer_type (ast_integer 2) (ast_integer 3)"]
    by (simp add: fold_constants_other is_binop_iff)
qed

end
